theory Spec2Isabelle
  imports Complex_Main "HOL-Library.Word"
begin

section \<open>The io_uring stubs of ocaml-uring (lib/uring/uring_stubs.c)\<close>

text \<open>
  The stubs sit between three parties whose code is not part of the repository: the
  OCaml runtime (the representation of values, \<open>unix_error\<close>, the socket address
  conversions), liburing (the submission and completion rings) and the kernel behind
  it. Each stub is embedded as a function of the ring it is given and of what the
  library call it makes returned; a raise and a dereference of a null ring are values
  of the result type.
\<close>

subsection \<open>OCaml values and C integers (64-bit system)\<close>

type_synonym c_int = "32 word"
type_synonym c_long = "64 word"
type_synonym ocaml_int = "63 word"

text \<open>
  The macros of the runtime's \<open>mlvalues.h\<close>. An OCaml integer is a 63-bit value;
  \<open>Long_val\<close> (an arithmetic shift right by one of the tagged word) extends its sign
  to 64 bits, \<open>Int_val\<close> is \<open>(int) Long_val\<close> and keeps the low 32 bits,
  \<open>Val_long x\<close> is \<open>(x << 1) + 1\<close>, which drops the top bit of \<open>x\<close>.
  \<open>Val_int\<close> applied to a C \<open>int\<close> first widens it to \<open>intnat\<close>.
  With \<open>ARCH_SIXTYFOUR\<close>, \<open>Int63_val\<close> is \<open>Long_val\<close>.
\<close>

definition Long_val :: "ocaml_int \<Rightarrow> c_long" where
  "Long_val v = scast v"

definition Int_val :: "ocaml_int \<Rightarrow> c_int" where
  "Int_val v = ucast (Long_val v)"

definition Int63_val :: "ocaml_int \<Rightarrow> c_long" where
  "Int63_val v = Long_val v"

definition Val_long :: "c_long \<Rightarrow> ocaml_int" where
  "Val_long x = ucast x"

definition Val_int :: "c_int \<Rightarrow> ocaml_int" where
  "Val_int x = Val_long (scast x)"

text \<open>The error numbers of Linux (\<open>errno.h\<close>) and the socket flag the stubs use.\<close>

definition EINTR :: c_int where "EINTR = 4"
definition EAGAIN :: c_int where "EAGAIN = 11"
definition ETIME :: c_int where "ETIME = 62"
definition SOCK_CLOEXEC :: c_int where "SOCK_CLOEXEC = 0x80000"

text \<open>
  What a stub can end in other than a value: the exception \<open>unix_error\<close> raises (the
  error number and the name of the call), or undefined behaviour, when the null
  pointer of a ring that has been taken down is handed to liburing, which
  dereferences it.
\<close>

datatype error = Unix_error c_int string | Undefined_behaviour

subsection \<open>Resource handles\<close>

text \<open>
  \<open>struct open_how_data\<close>: the kernel's \<open>struct open_how\<close> followed by the path.
\<close>

record open_how_data =
  how_flags :: "64 word"
  how_mode :: "64 word"
  how_resolve :: "64 word"
  path :: string

text \<open>
  \<open>struct sock_addr_data\<close>: the bytes of \<open>union sock_addr_union\<close> (the address
  family is in the first two) and the stored length.
\<close>

type_synonym sock_addr_union = "8 word list"

record sock_addr_data =
  sock_addr_addr :: sock_addr_union
  sock_addr_len :: c_int

text \<open>
  \<open>sizeof(union sock_addr_union)\<close> on Linux with IPv6: \<open>struct sockaddr_un\<close> is its
  largest member (110 bytes), aligned to the 4 bytes of \<open>struct sockaddr_in6\<close>.
\<close>

definition sizeof_sock_addr_union :: c_int where
  "sizeof_sock_addr_union = 112"

subsection \<open>The ring\<close>

text \<open>
  A submission entry is what the stub's \<open>io_uring_prep_*\<close> call and
  \<open>io_uring_sqe_set_data\<close> were given: the operation with its arguments, in the order
  of liburing's prototypes, and the tag. A pointer into a resource handle is
  represented by the handle's content.
\<close>

datatype io_uring_prep =
    Prep_nop
  | Prep_openat2 c_int open_how_data
  | Prep_close c_int
  | Prep_poll_add c_int c_int
  | Prep_readv c_int "64 word" c_int "64 word"
  | Prep_writev c_int "64 word" c_int "64 word"
  | Prep_read_fixed c_int "64 word" c_int "64 word" c_int
  | Prep_write_fixed c_int "64 word" c_int "64 word" c_int
  | Prep_splice (fd_in: c_int) (off_in: "64 word") (fd_out: c_int) (off_out: "64 word")
      (nbytes: c_int) (splice_flags: c_int)
  | Prep_connect c_int sock_addr_union c_int
  | Prep_accept c_int sock_addr_data c_int
  | Prep_cancel "64 word" c_int

record io_uring_sqe =
  prep :: io_uring_prep
  sqe_user_data :: "64 word"

text \<open>\<open>struct io_uring_cqe\<close>; its \<open>flags\<close> are not read by the stubs.\<close>

record io_uring_cqe =
  user_data :: "64 word"
  res :: c_int

text \<open>
  \<open>struct io_uring\<close>. \<open>sq\<close> holds the entries handed out by \<open>io_uring_get_sqe\<close> and
  not yet consumed by the kernel, oldest first, and \<open>sq_entries\<close> is the capacity of
  the submission ring. The completion ring is the array \<open>cqes\<close> shared with the
  kernel: the kernel writes the slot \<open>cq_tail mod length cqes\<close> and advances
  \<open>cq_tail\<close>, the application reads the slot \<open>cq_head mod length cqes\<close> and
  advances \<open>cq_head\<close>; the unseen completions are those from head to tail. A ring
  the kernel has set up has at least one slot in each ring.
\<close>

record io_uring =
  sq_entries :: nat
  sq :: "io_uring_sqe list"
  cqes :: "io_uring_cqe list"
  cq_head :: nat
  cq_tail :: nat

text \<open>
  The custom block \<open>v_uring\<close> holds a pointer to the ring, \<open>Ring_val\<close>; it is
  \<open>NULL\<close> (\<open>None\<close>) once the ring has been taken down.
\<close>

type_synonym ring_val = "io_uring option"

text \<open>What a stub releases: the calls it makes to give resources back.\<close>

datatype release = Queue_exit io_uring | Stat_free io_uring

subsection \<open>Teardown\<close>

definition ocaml_uring_exit :: "ring_val \<Rightarrow> ring_val \<times> release list" where
  "ocaml_uring_exit v_uring =
     (case v_uring of
        Some ring \<Rightarrow> (None, [Queue_exit ring, Stat_free ring])
      | None \<Rightarrow> (None, []))"

text \<open>Teardown called \<open>n\<close> times in a row, with everything the calls released.\<close>

fun exit_times :: "nat \<Rightarrow> ring_val \<Rightarrow> ring_val \<times> release list" where
  "exit_times 0 v_uring = (v_uring, [])"
| "exit_times (Suc n) v_uring =
     (case ocaml_uring_exit v_uring of
        (v', released) \<Rightarrow>
          (case exit_times n v' of (v'', released') \<Rightarrow> (v'', released @ released')))"

subsection \<open>Setup and buffer registration\<close>

text \<open>
  The library calls are parameters. \<open>io_uring_queue_init\<close> gives, for the number
  of entries asked for, the status it returns and the ring it initialises;
  \<open>io_uring_register_buffers\<close> gives what it returns for the one \<open>struct iovec\<close>
  (base and length) it is handed; \<open>ret\<close> is what \<open>io_uring_unregister_buffers\<close>
  returned. The registration itself is kept by the kernel. The bigarray \<open>v_ba\<close> is
  its data pointer and its first dimension.
\<close>

record bigarray =
  ba_data :: "64 word"
  ba_dim0 :: "64 word"

definition ocaml_uring_setup ::
  "(c_int \<Rightarrow> c_int \<times> io_uring) \<Rightarrow> ocaml_int \<Rightarrow> error + ring_val" where
  "ocaml_uring_setup io_uring_queue_init entries =
     (case io_uring_queue_init (ucast (Long_val entries)) of
        (status, ring) \<Rightarrow>
          if status = 0 then Inr (Some ring)
          else Inl (Unix_error (- status) ''io_uring_queue_init''))"

definition ocaml_uring_register_ba ::
  "(64 word \<times> 64 word \<Rightarrow> c_int) \<Rightarrow> ring_val \<Rightarrow> bigarray \<Rightarrow> error + unit" where
  "ocaml_uring_register_ba io_uring_register_buffers v_uring v_ba =
     (let iov = (ba_data v_ba, ba_dim0 v_ba)
      in case v_uring of
        None \<Rightarrow> Inl Undefined_behaviour
      | Some ring \<Rightarrow>
          (let ret = io_uring_register_buffers iov
           in if ret \<noteq> 0 then Inl (Unix_error (- ret) ''io_uring_register_buffers'')
              else Inr ()))"

definition ocaml_uring_unregister_ba :: "c_int \<Rightarrow> ring_val \<Rightarrow> bigarray \<Rightarrow> error + unit" where
  "ocaml_uring_unregister_ba ret v_uring v_ba =
     (case v_uring of
        None \<Rightarrow> Inl Undefined_behaviour
      | Some ring \<Rightarrow>
          if ret \<noteq> 0 then Inl (Unix_error (- ret) ''io_uring_register_buffers'')
          else Inr ())"

subsection \<open>The operation encoders\<close>

text \<open>
  Modelled from the spec: liburing's \<open>io_uring_get_sqe\<close> is not in the repository.
  It returns no slot when the submission ring is full, and the next free slot
  otherwise; the slot is represented by the store into it.
\<close>

definition io_uring_get_sqe :: "io_uring \<Rightarrow> (io_uring_sqe \<Rightarrow> io_uring) option" where
  "io_uring_get_sqe ring =
     (if length (sq ring) < sq_entries ring
      then Some (\<lambda>sqe. ring\<lparr>sq := sq ring @ [sqe]\<rparr>)
      else None)"

definition ocaml_uring_submit_nop :: "ring_val \<Rightarrow> ocaml_int \<Rightarrow> error + bool \<times> io_uring" where
  "ocaml_uring_submit_nop v_uring v_id =
     (case v_uring of
        None \<Rightarrow> Inl Undefined_behaviour
      | Some ring \<Rightarrow>
          (case io_uring_get_sqe ring of
             None \<Rightarrow> Inr (False, ring)
           | Some sqe \<Rightarrow>
               Inr (True, sqe \<lparr>prep = Prep_nop, sqe_user_data = Long_val v_id\<rparr>)))"

definition ocaml_uring_make_open_how ::
  "ocaml_int \<Rightarrow> ocaml_int \<Rightarrow> ocaml_int \<Rightarrow> string \<Rightarrow> open_how_data" where
  "ocaml_uring_make_open_how v_flags v_mode v_resolve v_path =
     \<lparr>how_flags = Long_val v_flags, how_mode = Long_val v_mode,
      how_resolve = Long_val v_resolve, path = v_path\<rparr>"

definition ocaml_uring_submit_openat2 ::
  "ring_val \<Rightarrow> ocaml_int \<Rightarrow> ocaml_int \<Rightarrow> open_how_data \<Rightarrow> error + bool \<times> io_uring" where
  "ocaml_uring_submit_openat2 v_uring v_id v_fd v_open_how =
     (case v_uring of
        None \<Rightarrow> Inl Undefined_behaviour
      | Some ring \<Rightarrow>
          (case io_uring_get_sqe ring of
             None \<Rightarrow> Inr (False, ring)
           | Some sqe \<Rightarrow>
               Inr (True, sqe \<lparr>prep = Prep_openat2 (Int_val v_fd) v_open_how,
                                sqe_user_data = Long_val v_id\<rparr>)))"

definition ocaml_uring_submit_close ::
  "ring_val \<Rightarrow> ocaml_int \<Rightarrow> ocaml_int \<Rightarrow> error + bool \<times> io_uring" where
  "ocaml_uring_submit_close v_uring v_fd v_id =
     (case v_uring of
        None \<Rightarrow> Inl Undefined_behaviour
      | Some ring \<Rightarrow>
          (case io_uring_get_sqe ring of
             None \<Rightarrow> Inr (False, ring)
           | Some sqe \<Rightarrow>
               Inr (True, sqe \<lparr>prep = Prep_close (Int_val v_fd),
                                sqe_user_data = Long_val v_id\<rparr>)))"

definition ocaml_uring_submit_poll_add ::
  "ring_val \<Rightarrow> ocaml_int \<Rightarrow> ocaml_int \<Rightarrow> ocaml_int \<Rightarrow> error + bool \<times> io_uring" where
  "ocaml_uring_submit_poll_add v_uring v_fd v_id v_poll_mask =
     (let poll_mask = Int_val v_poll_mask in
      case v_uring of
        None \<Rightarrow> Inl Undefined_behaviour
      | Some ring \<Rightarrow>
          (case io_uring_get_sqe ring of
             None \<Rightarrow> Inr (False, ring)
           | Some sqe \<Rightarrow>
               Inr (True, sqe \<lparr>prep = Prep_poll_add (Int_val v_fd) poll_mask,
                                sqe_user_data = Long_val v_id\<rparr>)))"

text \<open>
  The vector \<open>v_iov\<close>: its field 0 is the tagged pointer to the \<open>struct iovec\<close>
  array, and the size in words of its field 1 is the number of buffers.
\<close>

record iovec_val =
  iov_field0 :: "64 word"
  iov_field1_wosize :: "64 word"

definition ocaml_uring_submit_readv ::
  "ring_val \<Rightarrow> ocaml_int \<Rightarrow> ocaml_int \<Rightarrow> iovec_val \<Rightarrow> ocaml_int \<Rightarrow> error + bool \<times> io_uring" where
  "ocaml_uring_submit_readv v_uring v_fd v_id v_iov v_off =
     (case v_uring of
        None \<Rightarrow> Inl Undefined_behaviour
      | Some ring \<Rightarrow>
          (let iovs = and (iov_field0 v_iov) (not 1);
               len = (ucast (iov_field1_wosize v_iov) :: c_int)
           in case io_uring_get_sqe ring of
             None \<Rightarrow> Inr (False, ring)
           | Some sqe \<Rightarrow>
               Inr (True, sqe \<lparr>prep = Prep_readv (Int_val v_fd) iovs len (Int63_val v_off),
                                sqe_user_data = Long_val v_id\<rparr>)))"

definition ocaml_uring_submit_writev ::
  "ring_val \<Rightarrow> ocaml_int \<Rightarrow> ocaml_int \<Rightarrow> iovec_val \<Rightarrow> ocaml_int \<Rightarrow> error + bool \<times> io_uring" where
  "ocaml_uring_submit_writev v_uring v_fd v_id v_iov v_off =
     (case v_uring of
        None \<Rightarrow> Inl Undefined_behaviour
      | Some ring \<Rightarrow>
          (let iovs = and (iov_field0 v_iov) (not 1);
               len = (ucast (iov_field1_wosize v_iov) :: c_int)
           in case io_uring_get_sqe ring of
             None \<Rightarrow> Inr (False, ring)
           | Some sqe \<Rightarrow>
               Inr (True, sqe \<lparr>prep = Prep_writev (Int_val v_fd) iovs len (Int63_val v_off),
                                sqe_user_data = Long_val v_id\<rparr>)))"

definition ocaml_uring_submit_readv_fixed_native ::
  "ring_val \<Rightarrow> ocaml_int \<Rightarrow> ocaml_int \<Rightarrow> bigarray \<Rightarrow> ocaml_int \<Rightarrow> ocaml_int \<Rightarrow> ocaml_int \<Rightarrow>
     error + bool \<times> io_uring" where
  "ocaml_uring_submit_readv_fixed_native v_uring v_fd v_id v_ba v_off v_len v_fileoff =
     (case v_uring of
        None \<Rightarrow> Inl Undefined_behaviour
      | Some ring \<Rightarrow>
          (let buf = ba_data v_ba + Long_val v_off
           in case io_uring_get_sqe ring of
             None \<Rightarrow> Inr (False, ring)
           | Some sqe \<Rightarrow>
               Inr (True, sqe \<lparr>prep = Prep_read_fixed (Int_val v_fd) buf (Int_val v_len)
                                         (Int63_val v_fileoff) 0,
                                sqe_user_data = Long_val v_id\<rparr>)))"

definition ocaml_uring_submit_writev_fixed_native ::
  "ring_val \<Rightarrow> ocaml_int \<Rightarrow> ocaml_int \<Rightarrow> bigarray \<Rightarrow> ocaml_int \<Rightarrow> ocaml_int \<Rightarrow> ocaml_int \<Rightarrow>
     error + bool \<times> io_uring" where
  "ocaml_uring_submit_writev_fixed_native v_uring v_fd v_id v_ba v_off v_len v_fileoff =
     (case v_uring of
        None \<Rightarrow> Inl Undefined_behaviour
      | Some ring \<Rightarrow>
          (let buf = ba_data v_ba + Long_val v_off
           in case io_uring_get_sqe ring of
             None \<Rightarrow> Inr (False, ring)
           | Some sqe \<Rightarrow>
               Inr (True, sqe \<lparr>prep = Prep_write_fixed (Int_val v_fd) buf (Int_val v_len)
                                         (Int63_val v_fileoff) 0,
                                sqe_user_data = Long_val v_id\<rparr>)))"

definition ocaml_uring_submit_splice ::
  "ring_val \<Rightarrow> ocaml_int \<Rightarrow> ocaml_int \<Rightarrow> ocaml_int \<Rightarrow> ocaml_int \<Rightarrow> error + bool \<times> io_uring" where
  "ocaml_uring_submit_splice v_uring v_id v_fd_in v_fd_out v_nbytes =
     (case v_uring of
        None \<Rightarrow> Inl Undefined_behaviour
      | Some ring \<Rightarrow>
          (case io_uring_get_sqe ring of
             None \<Rightarrow> Inr (False, ring)
           | Some sqe \<Rightarrow>
               Inr (True, sqe \<lparr>prep = Prep_splice (Int_val v_fd_in) (- 1)
                                         (Int_val v_fd_out) (- 1) (Int_val v_nbytes) 0,
                                sqe_user_data = Long_val v_id\<rparr>)))"

definition ocaml_uring_submit_connect ::
  "ring_val \<Rightarrow> ocaml_int \<Rightarrow> ocaml_int \<Rightarrow> sock_addr_data \<Rightarrow> error + bool \<times> io_uring" where
  "ocaml_uring_submit_connect v_uring v_id v_fd v_sockaddr =
     (case v_uring of
        None \<Rightarrow> Inl Undefined_behaviour
      | Some ring \<Rightarrow>
          (let addr = v_sockaddr
           in case io_uring_get_sqe ring of
             None \<Rightarrow> Inr (False, ring)
           | Some sqe \<Rightarrow>
               Inr (True, sqe \<lparr>prep = Prep_connect (Int_val v_fd) (sock_addr_addr addr)
                                         (sock_addr_len addr),
                                sqe_user_data = Long_val v_id\<rparr>)))"

text \<open>
  The accept encoder also returns the socket address handle, whose stored length it
  assigns before it asks for a slot.
\<close>

definition ocaml_uring_submit_accept ::
  "ring_val \<Rightarrow> ocaml_int \<Rightarrow> ocaml_int \<Rightarrow> sock_addr_data \<Rightarrow>
     error + bool \<times> io_uring \<times> sock_addr_data" where
  "ocaml_uring_submit_accept v_uring v_id v_fd v_sockaddr =
     (let addr = v_sockaddr\<lparr>sock_addr_len := sizeof_sock_addr_union\<rparr>
      in case v_uring of
        None \<Rightarrow> Inl Undefined_behaviour
      | Some ring \<Rightarrow>
          (case io_uring_get_sqe ring of
             None \<Rightarrow> Inr (False, ring, addr)
           | Some sqe \<Rightarrow>
               Inr (True, sqe \<lparr>prep = Prep_accept (Int_val v_fd) addr SOCK_CLOEXEC,
                                sqe_user_data = Long_val v_id\<rparr>, addr)))"

definition ocaml_uring_submit_cancel ::
  "ring_val \<Rightarrow> ocaml_int \<Rightarrow> ocaml_int \<Rightarrow> error + bool \<times> io_uring" where
  "ocaml_uring_submit_cancel v_uring v_id v_target =
     (case v_uring of
        None \<Rightarrow> Inl Undefined_behaviour
      | Some ring \<Rightarrow>
          (case io_uring_get_sqe ring of
             None \<Rightarrow> Inr (False, ring)
           | Some sqe \<Rightarrow>
               Inr (True, sqe \<lparr>prep = Prep_cancel (Long_val v_target) 0,
                                sqe_user_data = Long_val v_id\<rparr>)))"

text \<open>
  Modelled from the spec: liburing's \<open>io_uring_submit\<close> is not in the repository.
  \<open>num\<close> is what it returned: the number of entries the kernel consumed, oldest
  first, or a negated error number. The stub returns \<open>num\<close> as it is.
\<close>

definition io_uring_submit :: "c_int \<Rightarrow> io_uring \<Rightarrow> io_uring" where
  "io_uring_submit num ring =
     (if 0 \<le>s num then ring\<lparr>sq := drop (unat num) (sq ring)\<rparr> else ring)"

definition ocaml_uring_submit :: "c_int \<Rightarrow> ring_val \<Rightarrow> error + ocaml_int \<times> io_uring" where
  "ocaml_uring_submit num v_uring =
     (case v_uring of
        None \<Rightarrow> Inl Undefined_behaviour
      | Some ring \<Rightarrow> Inr (Val_int num, io_uring_submit num ring))"

subsection \<open>Socket address handles\<close>

text \<open>
  An OCaml \<open>Unix.sockaddr\<close>: the path of a Unix domain socket, or an internet
  address (a string of 4 bytes for IPv4, of 16 bytes for IPv6; the runtime builds no
  other) and a port. OCaml strings are byte sequences.
\<close>

datatype sockaddr = ADDR_UNIX "8 word list" | ADDR_INET "8 word list" ocaml_int

text \<open>
  Modelled from the spec: the address translation between an OCaml socket address
  and the kernel's native representation is done by \<open>get_sockaddr\<close> and
  \<open>alloc_sockaddr\<close> of the OCaml runtime (\<open>socketaddr.c\<close>), which are not in the
  repository. They are modelled for Linux on a little-endian machine, with IPv6.

  The native address is \<open>struct sockaddr_un\<close> (the family \<open>AF_UNIX\<close> in 2 bytes,
  then the path, of at most 108 bytes), \<open>struct sockaddr_in\<close> (16 bytes: the family
  \<open>AF_INET\<close>, the port in 2 bytes in network byte order, the 4 address bytes, 8
  bytes of padding) or \<open>struct sockaddr_in6\<close> (28 bytes: the family \<open>AF_INET6\<close>,
  the port, 4 bytes of flow information, the 16 address bytes, 4 bytes of scope
  id). \<open>htons\<close> keeps the low 16 bits of the port it is given.
\<close>

definition ENOENT :: c_int where "ENOENT = 2"
definition ENAMETOOLONG :: c_int where "ENAMETOOLONG = 36"
definition EAFNOSUPPORT :: c_int where "EAFNOSUPPORT = 97"

definition htons :: "c_int \<Rightarrow> 8 word list" where
  "htons x = [ucast (drop_bit 8 (ucast x :: 16 word)), ucast (ucast x :: 16 word)]"

definition ntohs :: "8 word \<Rightarrow> 8 word \<Rightarrow> c_int" where
  "ntohs hi lo = or (push_bit 8 (ucast hi)) (ucast lo)"

definition strnlen :: "8 word list \<Rightarrow> nat \<Rightarrow> nat" where
  "strnlen s n = length (takeWhile (\<lambda>b. b \<noteq> 0) (take n s))"

text \<open>
  \<open>get_sockaddr\<close> writes the first bytes of the buffer \<open>adr\<close> it is given, which has
  the size of \<open>union sock_addr_union\<close>, and leaves the rest of the buffer as it was.
  It refuses a path of 108 bytes or more, and a path with a zero byte unless the
  path starts with one (an abstract socket). \<open>alloc_sockaddr\<close> goes by the family
  stored in the first two bytes.
\<close>

definition overwrite :: "8 word list \<Rightarrow> 8 word list \<Rightarrow> 8 word list" where
  "overwrite bs adr = bs @ drop (length bs) adr"

definition get_sockaddr :: "sockaddr \<Rightarrow> sock_addr_union \<Rightarrow> error + sock_addr_union \<times> c_int" where
  "get_sockaddr mladr adr =
     (case mladr of
        ADDR_UNIX mlpath \<Rightarrow>
          if 108 \<le> length mlpath then Inl (Unix_error ENAMETOOLONG [])
          else if mlpath \<noteq> [] \<and> hd mlpath \<noteq> 0 \<and> 0 \<in> set mlpath
          then Inl (Unix_error ENOENT [])
          else Inr (overwrite ([1, 0] @ mlpath @ [0]) adr, of_nat (2 + length mlpath))
      | ADDR_INET ip port \<Rightarrow>
          if length ip = 16
          then Inr (overwrite ([10, 0] @ htons (Int_val port) @ [0, 0, 0, 0] @ ip @ [0, 0, 0, 0])
                      adr, 28)
          else Inr (overwrite ([2, 0] @ htons (Int_val port) @ take 4 ip @ replicate 8 0) adr,
                    16))"

definition alloc_sockaddr :: "sock_addr_union \<Rightarrow> c_int \<Rightarrow> c_int \<Rightarrow> error + sockaddr" where
  "alloc_sockaddr adr adr_len close_on_error =
     (if adr_len < 2 then Inr (ADDR_UNIX [])
      else if take 2 adr = [1, 0] then
        (let sun_path = drop 2 adr;
             path_length =
               (if 2 < adr_len
                then if hd sun_path = 0 then unat adr_len - 2
                     else strnlen sun_path (unat adr_len - 2)
                else 0)
         in Inr (ADDR_UNIX (take path_length sun_path)))
      else if take 2 adr = [2, 0] then
        Inr (ADDR_INET (take 4 (drop 4 adr)) (Val_int (ntohs (adr ! 2) (adr ! 3))))
      else if take 2 adr = [10, 0] then
        Inr (ADDR_INET (take 16 (drop 8 adr)) (Val_int (ntohs (adr ! 2) (adr ! 3))))
      else Inl (Unix_error EAFNOSUPPORT []))"

text \<open>
  \<open>data\<close> is the block \<open>caml_stat_alloc\<close> returned for the handle, not
  initialised; \<open>get_sockaddr\<close> fills it, or raises.
\<close>

definition ocaml_uring_make_sockaddr :: "sock_addr_data \<Rightarrow> sockaddr \<Rightarrow> error + sock_addr_data" where
  "ocaml_uring_make_sockaddr data v_sockaddr =
     (case get_sockaddr v_sockaddr (sock_addr_addr data) of
        Inl e \<Rightarrow> Inl e
      | Inr (adr, adr_len) \<Rightarrow> Inr (data\<lparr>sock_addr_addr := adr, sock_addr_len := adr_len\<rparr>))"

definition ocaml_uring_extract_sockaddr :: "sock_addr_data \<Rightarrow> error + sockaddr" where
  "ocaml_uring_extract_sockaddr v =
     (let data = v in alloc_sockaddr (sock_addr_addr data) (sock_addr_len data) (- 1))"

subsection \<open>Completion retrieval\<close>

text \<open>
  Modelled from the spec: the completion ring of liburing and the kernel is not in
  the repository. \<open>kernel_post\<close> is the kernel delivering a completion: it fills the
  slot at the tail when the ring has a free slot, and leaves the ring alone when it
  is full. \<open>io_uring_cqe_seen\<close> marks the oldest completion consumed by advancing
  the head, which frees its slot for the kernel.
\<close>

definition kernel_post :: "io_uring_cqe \<Rightarrow> io_uring \<Rightarrow> io_uring" where
  "kernel_post c ring =
     (if cq_tail ring - cq_head ring < length (cqes ring)
      then ring\<lparr>cqes := (cqes ring)[cq_tail ring mod length (cqes ring) := c],
                cq_tail := cq_tail ring + 1\<rparr>
      else ring)"

definition io_uring_cqe_seen :: "io_uring \<Rightarrow> io_uring" where
  "io_uring_cqe_seen ring = ring\<lparr>cq_head := cq_head ring + 1\<rparr>"

text \<open>
  The entry a successful \<open>io_uring_wait_cqe\<close>, \<open>io_uring_wait_cqe_timeout\<close> or
  \<open>io_uring_peek_cqe\<close> points \<open>cqe\<close> to: the slot at the head of the completion ring.
\<close>

definition cqe_slot :: "io_uring \<Rightarrow> nat" where
  "cqe_slot ring = cq_head ring mod length (cqes ring)"

text \<open>
  \<open>Val_cqe_none\<close> is \<open>None\<close> and \<open>Val_cqe_some id res\<close> is \<open>Some (id, res)\<close>.

  In the three stubs \<open>ret\<close> is what the library call returned, and \<open>posted\<close> are
  the completions the kernel, which runs beside the stub, delivers after the stub
  has marked the entry consumed and before it reads \<open>cqe->res\<close>: the stub reads
  the tag, calls \<open>io_uring_cqe_seen\<close>, and reads the result from the slot only
  when it builds the value it returns.
\<close>

type_synonym cqe_option = "(ocaml_int \<times> ocaml_int) option"

text \<open>
  The timeout is a \<open>double\<close>, taken here as a real number; the conversions to the
  integer fields of \<open>struct __kernel_timespec\<close> truncate towards zero. The
  arithmetic is exact here: the rounding of the \<open>double\<close> operations and the
  overflow of the 64-bit fields are not modelled. The library call is a function of
  the timespec it is given, and no property below depends on the conversion.
\<close>

record kernel_timespec =
  tv_sec :: int
  tv_nsec :: int

definition c_trunc :: "real \<Rightarrow> int" where
  "c_trunc x = (if 0 \<le> x then \<lfloor>x\<rfloor> else \<lceil>x\<rceil>)"

definition timespec_of :: "real \<Rightarrow> kernel_timespec" where
  "timespec_of timeout =
     (let sec = c_trunc timeout
      in \<lparr>tv_sec = sec, tv_nsec = c_trunc ((timeout - real_of_int sec) * 1000000000)\<rparr>)"

definition ocaml_uring_wait_cqe_timeout ::
  "(kernel_timespec \<Rightarrow> c_int) \<Rightarrow> io_uring_cqe list \<Rightarrow> real \<Rightarrow> ring_val \<Rightarrow>
     error + cqe_option \<times> io_uring" where
  "ocaml_uring_wait_cqe_timeout io_uring_wait_cqe_timeout posted v_timeout v_uring =
     (let t = timespec_of v_timeout
      in case v_uring of
        None \<Rightarrow> Inl Undefined_behaviour
      | Some ring \<Rightarrow>
          (let ret = io_uring_wait_cqe_timeout t
           in if ret <s 0 then
                if ret = - EAGAIN \<or> ret = - EINTR \<or> ret = - ETIME then Inr (None, ring)
                else Inl (Unix_error (- ret) ''io_uring_wait_cqe_timeout'')
              else
                (let cqe = cqe_slot ring;
                     id = user_data (cqes ring ! cqe);
                     ring' = fold kernel_post posted (io_uring_cqe_seen ring)
                 in Inr (Some (Val_long id, Val_int (res (cqes ring' ! cqe))), ring'))))"

definition ocaml_uring_wait_cqe ::
  "c_int \<Rightarrow> io_uring_cqe list \<Rightarrow> ring_val \<Rightarrow> error + cqe_option \<times> io_uring" where
  "ocaml_uring_wait_cqe ret posted v_uring =
     (case v_uring of
        None \<Rightarrow> Inl Undefined_behaviour
      | Some ring \<Rightarrow>
          if ret <s 0 then
            if ret = - EAGAIN \<or> ret = - EINTR then Inr (None, ring)
            else Inl (Unix_error (- ret) ''io_uring_wait_cqe'')
          else
            (let cqe = cqe_slot ring;
                 id = user_data (cqes ring ! cqe);
                 ring' = fold kernel_post posted (io_uring_cqe_seen ring)
             in Inr (Some (Val_long id, Val_int (res (cqes ring' ! cqe))), ring')))"

definition ocaml_uring_peek_cqe ::
  "c_int \<Rightarrow> io_uring_cqe list \<Rightarrow> ring_val \<Rightarrow> error + cqe_option \<times> io_uring" where
  "ocaml_uring_peek_cqe ret posted v_uring =
     (case v_uring of
        None \<Rightarrow> Inl Undefined_behaviour
      | Some ring \<Rightarrow>
          if ret <s 0 then
            if ret = - EAGAIN \<or> ret = - EINTR then Inr (None, ring)
            else Inl (Unix_error (- ret) ''io_uring_peek_cqe'')
          else
            (let cqe = cqe_slot ring;
                 id = user_data (cqes ring ! cqe);
                 ring' = fold kernel_post posted (io_uring_cqe_seen ring)
             in Inr (Some (Val_long id, Val_int (res (cqes ring' ! cqe))), ring')))"

text \<open>
  The unseen completions of a ring, oldest first: the slots from the head of the
  completion ring to its tail.
\<close>

definition unseen :: "io_uring \<Rightarrow> io_uring_cqe list" where
  "unseen ring =
     map (\<lambda>i. cqes ring ! (i mod length (cqes ring))) [cq_head ring..<cq_tail ring]"

text \<open>A stub fails when it raises an exception.\<close>

fun raises :: "error + 'a \<Rightarrow> bool" where
  "raises (Inl (Unix_error code name)) = True"
| "raises (Inl Undefined_behaviour) = False"
| "raises (Inr v) = False"

text \<open>
  What the spec says of every encoder, for an operation \<open>p\<close> and a tag: true with
  the slot filled when a slot is free, false with the ring as it was when the
  submission ring is full.
\<close>

definition fill_slot_or_full :: "io_uring \<Rightarrow> io_uring_prep \<Rightarrow> c_long \<Rightarrow> bool \<times> io_uring" where
  "fill_slot_or_full ring p tag =
     (if length (sq ring) < sq_entries ring
      then (True, ring\<lparr>sq := sq ring @ [\<lparr>prep = p, sqe_user_data = tag\<rparr>]\<rparr>)
      else (False, ring))"

text \<open>
  A handle made from an OCaml address in the block \<open>data\<close> and read back at once.
\<close>

definition make_then_extract :: "sock_addr_data \<Rightarrow> sockaddr \<Rightarrow> error + sockaddr" where
  "make_then_extract data a =
     (case ocaml_uring_make_sockaddr data a of
        Inl e \<Rightarrow> Inl e
      | Inr h \<Rightarrow> ocaml_uring_extract_sockaddr h)"

subsection \<open>Example values\<close>

text \<open>
  A ring of two submission slots and four completion slots, nothing pending; the
  same ring with its submission ring full; and a ring whose completion ring of two
  slots is full.
\<close>

definition empty_ring :: io_uring where
  "empty_ring =
     \<lparr>sq_entries = 2, sq = [],
      cqes = replicate 4 \<lparr>user_data = 0, res = 0\<rparr>, cq_head = 0, cq_tail = 0\<rparr>"

definition sq_full_ring :: io_uring where
  "sq_full_ring =
     empty_ring\<lparr>sq := [\<lparr>prep = Prep_nop, sqe_user_data = 1\<rparr>,
                        \<lparr>prep = Prep_nop, sqe_user_data = 2\<rparr>]\<rparr>"

definition cq_full_ring :: io_uring where
  "cq_full_ring =
     \<lparr>sq_entries = 1, sq = [],
      cqes = [\<lparr>user_data = 1, res = 10\<rparr>, \<lparr>user_data = 2, res = 20\<rparr>],
      cq_head = 0, cq_tail = 2\<rparr>"

text \<open>A handle holding an IPv4 address: 16 bytes of \<open>struct sockaddr_in\<close>.\<close>

definition inet_handle :: sock_addr_data where
  "inet_handle =
     \<lparr>sock_addr_addr = [2, 0, 0, 80, 127, 0, 0, 1] @ replicate 104 0, sock_addr_len = 16\<rparr>"

text \<open>A block for a handle as the allocator may return it: 112 bytes, here all 255.\<close>

definition fresh_block :: sock_addr_data where
  "fresh_block = \<lparr>sock_addr_addr = replicate 112 255, sock_addr_len = 0\<rparr>"

section \<open>Properties\<close>

subsection \<open>Values\<close>

lemma Int_val_ucast: "Int_val v = ucast v"
  unfolding Int_val_def Long_val_def
  by (rule bit_word_eqI) (auto simp: bit_simps)

lemma Int_val_unat: "unat (Int_val v) = unat v mod 2 ^ 32"
  unfolding Int_val_ucast
  by (simp add: unsigned_ucast_eq unsigned_take_bit_eq take_bit_eq_mod)

text \<open>A tag written by an encoder and echoed by the kernel is read back as the id.\<close>

lemma Val_long_Long_val: "Val_long (Long_val v) = v"
  unfolding Val_long_def Long_val_def
  by (rule bit_word_eqI) (auto simp: bit_simps)

lemma neg_errno_sless: "- EAGAIN <s 0" "- EINTR <s 0" "- ETIME <s 0"
  by (simp_all add: EAGAIN_def EINTR_def ETIME_def word_sless_alt)

lemma not_sless_iff: "(\<not> ret <s (0::c_int)) = (0 \<le>s ret)"
  by (auto simp: word_sle_eq word_sless_alt)

subsection \<open>Teardown\<close>

lemma exit_times_torn_down: "exit_times n None = (None, [])"
  by (induction n) (simp_all add: ocaml_uring_exit_def)

lemma exit_None: "fst (ocaml_uring_exit v_uring) = None"
  by (simp add: ocaml_uring_exit_def split: option.split)

text \<open>
  C6. Teardown is idempotent: a second or further teardown of a ring neither faults
  nor releases anything again, and after \<open>n \<ge> 1\<close> teardowns the ring is in the state
  one teardown leaves it in, with the same resources released once.
\<close>

theorem teardown_idempotent:
  "1 \<le> n \<Longrightarrow>
     exit_times n v_uring = ocaml_uring_exit v_uring \<and>
     ocaml_uring_exit (fst (ocaml_uring_exit v_uring)) = (fst (ocaml_uring_exit v_uring), [])"
proof -
  assume "1 \<le> n"
  then obtain m where n: "n = Suc m"
    by (cases n) auto
  have "exit_times (Suc m) v_uring = ocaml_uring_exit v_uring"
    by (cases v_uring) (simp_all add: ocaml_uring_exit_def exit_times_torn_down)
  moreover have
    "ocaml_uring_exit (fst (ocaml_uring_exit v_uring)) = (fst (ocaml_uring_exit v_uring), [])"
    by (cases v_uring) (simp_all add: ocaml_uring_exit_def)
  ultimately show ?thesis
    using n by simp
qed

theorem teardown_idempotent_witness:
  "(1::nat) \<le> 3 \<and>
   exit_times 3 (Some empty_ring) = (None, [Queue_exit empty_ring, Stat_free empty_ring]) \<and>
   ocaml_uring_exit None = (None, [])"
  using teardown_idempotent [of 3 "Some empty_ring"]
  by (simp add: ocaml_uring_exit_def)

text \<open>
  C2, as amended. Teardown leaves the null pointer in the ring's block, so a ring is
  either live or torn down, and teardown itself checks for the null pointer: on a
  ring torn down it does nothing. No other stub checks: slot acquisition by every
  encoder, submit, the three completion retrievals and buffer registration and
  unregistration hand the null pointer to liburing, which is undefined behaviour
  and not a failure reported to the caller.
\<close>

theorem torn_down_ring_unchecked:
  "fst (ocaml_uring_exit v_uring) = None \<and>
   ocaml_uring_exit None = (None, []) \<and>
   ocaml_uring_submit_nop None v_id = Inl Undefined_behaviour \<and>
   ocaml_uring_submit_openat2 None v_id v_fd v_open_how = Inl Undefined_behaviour \<and>
   ocaml_uring_submit_close None v_fd v_id = Inl Undefined_behaviour \<and>
   ocaml_uring_submit_poll_add None v_fd v_id v_poll_mask = Inl Undefined_behaviour \<and>
   ocaml_uring_submit_readv None v_fd v_id v_iov v_off = Inl Undefined_behaviour \<and>
   ocaml_uring_submit_writev None v_fd v_id v_iov v_off = Inl Undefined_behaviour \<and>
   ocaml_uring_submit_readv_fixed_native None v_fd v_id v_ba v_off v_len v_fileoff =
     Inl Undefined_behaviour \<and>
   ocaml_uring_submit_writev_fixed_native None v_fd v_id v_ba v_off v_len v_fileoff =
     Inl Undefined_behaviour \<and>
   ocaml_uring_submit_splice None v_id v_fd_in v_fd_out v_nbytes = Inl Undefined_behaviour \<and>
   ocaml_uring_submit_connect None v_id v_fd v_sockaddr = Inl Undefined_behaviour \<and>
   ocaml_uring_submit_accept None v_id v_fd v_sockaddr = Inl Undefined_behaviour \<and>
   ocaml_uring_submit_cancel None v_id v_target = Inl Undefined_behaviour \<and>
   ocaml_uring_submit num None = Inl Undefined_behaviour \<and>
   ocaml_uring_wait_cqe ret posted None = Inl Undefined_behaviour \<and>
   ocaml_uring_wait_cqe_timeout wait posted v_timeout None = Inl Undefined_behaviour \<and>
   ocaml_uring_peek_cqe ret posted None = Inl Undefined_behaviour \<and>
   ocaml_uring_register_ba register None v_ba = Inl Undefined_behaviour \<and>
   ocaml_uring_unregister_ba ret None v_ba = Inl Undefined_behaviour"
proof -
  have "ocaml_uring_exit None = (None, [])"
    by (simp add: ocaml_uring_exit_def)
  then show ?thesis
    using exit_None [of v_uring]
    by (simp add: ocaml_uring_submit_nop_def
        ocaml_uring_submit_openat2_def ocaml_uring_submit_close_def
        ocaml_uring_submit_poll_add_def ocaml_uring_submit_readv_def
        ocaml_uring_submit_writev_def ocaml_uring_submit_readv_fixed_native_def
        ocaml_uring_submit_writev_fixed_native_def ocaml_uring_submit_splice_def
        ocaml_uring_submit_connect_def ocaml_uring_submit_accept_def
        ocaml_uring_submit_cancel_def ocaml_uring_submit_def ocaml_uring_wait_cqe_def
        ocaml_uring_wait_cqe_timeout_def ocaml_uring_peek_cqe_def
        ocaml_uring_register_ba_def ocaml_uring_unregister_ba_def)
qed

text \<open>
  The claim as it stands fails: a no-op encoded on a ring that has been torn down
  does not raise.
\<close>

theorem torn_down_ring_counterexample:
  "ocaml_uring_submit_nop (fst (ocaml_uring_exit (Some empty_ring))) 1 = Inl Undefined_behaviour \<and>
   \<not> raises (ocaml_uring_submit_nop (fst (ocaml_uring_exit (Some empty_ring))) 1)"
  by (simp add: ocaml_uring_exit_def ocaml_uring_submit_nop_def)

subsection \<open>Completion retrieval\<close>

lemma unseen_Cons:
  assumes "unseen ring = c # cs"
  shows "cqes ring ! cqe_slot ring = c" and "unseen (io_uring_cqe_seen ring) = cs"
proof -
  from assms have "cq_head ring < cq_tail ring"
    by (cases "cq_head ring < cq_tail ring") (auto simp: unseen_def)
  then have upt:
    "[cq_head ring..<cq_tail ring] = cq_head ring # [Suc (cq_head ring)..<cq_tail ring]"
    by (simp add: upt_conv_Cons)
  from assms show "cqes ring ! cqe_slot ring = c"
    by (simp add: unseen_def upt cqe_slot_def)
  from assms show "unseen (io_uring_cqe_seen ring) = cs"
    by (simp add: unseen_def upt io_uring_cqe_seen_def)
qed

lemma unseen_cq_full_ring:
  "unseen cq_full_ring = [\<lparr>user_data = 1, res = 10\<rparr>, \<lparr>user_data = 2, res = 20\<rparr>]"
  by code_simp

text \<open>
  With no completion delivered meanwhile, the non-blocking peek that succeeds
  returns the oldest unseen completion, as the blocking wait does (C1 below).
\<close>

lemma peek_cqe_undisturbed:
  assumes "0 \<le>s ret" and "unseen ring = c # cs"
  shows "ocaml_uring_peek_cqe ret [] (Some ring) =
           Inr (Some (Val_long (user_data c), Val_int (res c)), io_uring_cqe_seen ring)"
proof -
  have "\<not> ret <s 0"
    using assms(1) by (simp add: not_sless_iff)
  moreover have "cqes (io_uring_cqe_seen ring) = cqes ring"
    by (simp add: io_uring_cqe_seen_def)
  moreover have "cqes ring ! cqe_slot ring = c"
    using assms(2) by (rule unseen_Cons(1))
  ultimately show ?thesis
    by (simp add: ocaml_uring_peek_cqe_def Let_def)
qed

text \<open>
  C1, as amended. On a live ring the blocking wait returns the "no completion" value
  exactly when the library call returns \<open>-EAGAIN\<close> or \<open>-EINTR\<close> (a signal
  interrupted the wait); when the call succeeds and the kernel leaves the ring alone
  meanwhile, it returns the id and the result of the oldest unseen completion and
  marks that completion consumed.
\<close>

theorem wait_cqe_outcomes:
  "((\<exists>ring'. ocaml_uring_wait_cqe ret posted (Some ring) = Inr (None, ring')) \<longleftrightarrow>
      ret = - EAGAIN \<or> ret = - EINTR) \<and>
   (0 \<le>s ret \<and> unseen ring = c # cs \<longrightarrow>
      ocaml_uring_wait_cqe ret [] (Some ring) =
        Inr (Some (Val_long (user_data c), Val_int (res c)), io_uring_cqe_seen ring) \<and>
      unseen (io_uring_cqe_seen ring) = cs)"
proof (intro conjI impI)
  show "(\<exists>ring'. ocaml_uring_wait_cqe ret posted (Some ring) = Inr (None, ring')) \<longleftrightarrow>
      ret = - EAGAIN \<or> ret = - EINTR"
    using neg_errno_sless
    by (auto simp: ocaml_uring_wait_cqe_def Let_def)
next
  assume a: "0 \<le>s ret \<and> unseen ring = c # cs"
  then have "\<not> ret <s 0"
    by (simp add: not_sless_iff)
  moreover have "cqes (io_uring_cqe_seen ring) = cqes ring"
    by (simp add: io_uring_cqe_seen_def)
  moreover have "cqes ring ! cqe_slot ring = c"
    using a unseen_Cons(1) by blast
  ultimately show "ocaml_uring_wait_cqe ret [] (Some ring) =
        Inr (Some (Val_long (user_data c), Val_int (res c)), io_uring_cqe_seen ring)"
    by (simp add: ocaml_uring_wait_cqe_def Let_def)
next
  assume "0 \<le>s ret \<and> unseen ring = c # cs"
  then show "unseen (io_uring_cqe_seen ring) = cs"
    using unseen_Cons(2) by blast
qed

theorem wait_cqe_outcomes_witness:
  "(\<exists>ring'. ocaml_uring_wait_cqe (- EINTR) [] (Some empty_ring) = Inr (None, ring')) \<and>
   ocaml_uring_wait_cqe 0 [] (Some cq_full_ring) =
     Inr (Some (1, 10), io_uring_cqe_seen cq_full_ring) \<and>
   unseen (io_uring_cqe_seen cq_full_ring) = [\<lparr>user_data = 2, res = 20\<rparr>]"
proof -
  have v: "Val_long 1 = 1" "Val_int 10 = 10"
    by (simp_all add: Val_long_def Val_int_def)
  have z: "(0::c_int) \<le>s 0"
    by (simp add: word_sle_eq)
  show ?thesis
    using wait_cqe_outcomes [of "- EINTR" "[]" empty_ring]
      wait_cqe_outcomes [of 0 "[]" cq_full_ring "\<lparr>user_data = 1, res = 10\<rparr>"
        "[\<lparr>user_data = 2, res = 20\<rparr>]"]
      unseen_cq_full_ring v z
    by simp
qed

text \<open>
  The claim as it stands fails: interrupted by a signal, the blocking wait on a live
  ring returns "no completion".
\<close>

theorem wait_cqe_none_counterexample:
  "ocaml_uring_wait_cqe (- EINTR) [] (Some empty_ring) = Inr (None, empty_ring)"
  by (simp add: ocaml_uring_wait_cqe_def neg_errno_sless)

text \<open>
  C5. On a live ring the wait with a timeout returns \<open>None\<close> in exactly three
  outcomes of the library call, \<open>-ETIME\<close> (the timeout expired), \<open>-EINTR\<close> (a
  signal) and \<open>-EAGAIN\<close> (retry), which the value returned does not tell apart;
  whenever the call succeeds it returns \<open>Some (id, result)\<close>, where the id is that
  of the oldest unseen completion and the result is the one read from its slot,
  and the completion is marked consumed. With no completion delivered meanwhile the
  result is that of the oldest unseen completion too.
\<close>

theorem wait_cqe_timeout_none_iff:
  "((\<exists>ring'. ocaml_uring_wait_cqe_timeout wait posted v_timeout (Some ring) = Inr (None, ring'))
      \<longleftrightarrow> wait (timespec_of v_timeout) \<in> {- ETIME, - EINTR, - EAGAIN}) \<and>
   (wait (timespec_of v_timeout) \<in> {- ETIME, - EINTR, - EAGAIN} \<longrightarrow>
      ocaml_uring_wait_cqe_timeout wait posted v_timeout (Some ring) = Inr (None, ring)) \<and>
   (0 \<le>s wait (timespec_of v_timeout) \<longrightarrow>
      (\<exists>id result ring'.
         ocaml_uring_wait_cqe_timeout wait posted v_timeout (Some ring) =
           Inr (Some (id, result), ring'))) \<and>
   (0 \<le>s wait (timespec_of v_timeout) \<longrightarrow>
      ocaml_uring_wait_cqe_timeout wait posted v_timeout (Some ring) =
        Inr (Some (Val_long (user_data (cqes ring ! cqe_slot ring)),
                   Val_int (res (cqes (fold kernel_post posted (io_uring_cqe_seen ring)) !
                                   cqe_slot ring))),
             fold kernel_post posted (io_uring_cqe_seen ring))) \<and>
   (0 \<le>s wait (timespec_of v_timeout) \<and> unseen ring = c # cs \<longrightarrow>
      (\<exists>result ring'.
         ocaml_uring_wait_cqe_timeout wait posted v_timeout (Some ring) =
           Inr (Some (Val_long (user_data c), result), ring')) \<and>
      ocaml_uring_wait_cqe_timeout wait [] v_timeout (Some ring) =
        Inr (Some (Val_long (user_data c), Val_int (res c)), io_uring_cqe_seen ring) \<and>
      unseen (io_uring_cqe_seen ring) = cs)"
proof -
  let ?ret = "wait (timespec_of v_timeout)"
  let ?stub = "\<lambda>posted. ocaml_uring_wait_cqe_timeout wait posted v_timeout (Some ring)"
  have none: "(\<exists>ring'. ?stub posted = Inr (None, ring')) \<longleftrightarrow>
      ?ret \<in> {- ETIME, - EINTR, - EAGAIN}"
    using neg_errno_sless
    by (auto simp: ocaml_uring_wait_cqe_timeout_def Let_def)
  have same: "?ret \<in> {- ETIME, - EINTR, - EAGAIN} \<longrightarrow> ?stub posted = Inr (None, ring)"
    using neg_errno_sless
    by (auto simp: ocaml_uring_wait_cqe_timeout_def Let_def)
  have some: "?stub q =
        Inr (Some (Val_long (user_data (cqes ring ! cqe_slot ring)),
                   Val_int (res (cqes (fold kernel_post q (io_uring_cqe_seen ring)) !
                                   cqe_slot ring))),
             fold kernel_post q (io_uring_cqe_seen ring))"
    if "0 \<le>s ?ret" for q
    using that
    by (simp add: ocaml_uring_wait_cqe_timeout_def Let_def not_sless_iff [symmetric])
  have head: "?stub q = Inr (Some (Val_long (user_data c),
                   Val_int (res (cqes (fold kernel_post q (io_uring_cqe_seen ring)) !
                                   cqe_slot ring))),
             fold kernel_post q (io_uring_cqe_seen ring))"
    if "0 \<le>s ?ret" and "unseen ring = c # cs" for q
    using some [OF that(1)] unseen_Cons(1) [OF that(2)] by simp
  have quiet: "?stub [] =
        Inr (Some (Val_long (user_data c), Val_int (res c)), io_uring_cqe_seen ring)"
    if "0 \<le>s ?ret" and "unseen ring = c # cs"
  proof -
    have "cqes (io_uring_cqe_seen ring) = cqes ring"
      by (simp add: io_uring_cqe_seen_def)
    then show ?thesis
      using head [OF that, of "[]"] unseen_Cons(1) [OF that(2)] by simp
  qed
  show ?thesis
    using none same some head quiet unseen_Cons(2) [of ring c cs]
    by blast
qed

theorem wait_cqe_timeout_none_iff_witness:
  "ocaml_uring_wait_cqe_timeout (\<lambda>t. - ETIME) [] (1 / 2) (Some empty_ring) =
     Inr (None, empty_ring) \<and>
   ocaml_uring_wait_cqe_timeout (\<lambda>t. 0) [] (1 / 2) (Some cq_full_ring) =
     Inr (Some (1, 10), io_uring_cqe_seen cq_full_ring) \<and>
   unseen (io_uring_cqe_seen cq_full_ring) = [\<lparr>user_data = 2, res = 20\<rparr>]"
proof -
  have z: "(0::c_int) \<le>s 0"
    by (simp add: word_sle_eq)
  have v: "Val_long 1 = 1" "Val_int 10 = 10"
    by (simp_all add: Val_long_def Val_int_def)
  have none: "ocaml_uring_wait_cqe_timeout (\<lambda>t. - ETIME) [] (1 / 2) (Some empty_ring) =
      Inr (None, empty_ring)"
    using wait_cqe_timeout_none_iff [of "\<lambda>t. - ETIME" "[]" "1 / 2" empty_ring
        "\<lparr>user_data = 1, res = 10\<rparr>" "[]"]
    by simp
  have "ocaml_uring_wait_cqe_timeout (\<lambda>t. 0) [] (1 / 2) (Some cq_full_ring) =
      Inr (Some (Val_long (user_data \<lparr>user_data = 1, res = 10\<rparr>),
                 Val_int (res \<lparr>user_data = 1, res = 10\<rparr>)),
           io_uring_cqe_seen cq_full_ring) \<and>
    unseen (io_uring_cqe_seen cq_full_ring) = [\<lparr>user_data = 2, res = 20\<rparr>]"
    using wait_cqe_timeout_none_iff [of "\<lambda>t. 0" "[]" "1 / 2" cq_full_ring
        "\<lparr>user_data = 1, res = 10\<rparr>" "[\<lparr>user_data = 2, res = 20\<rparr>]"]
      unseen_cq_full_ring z
    by blast
  then show ?thesis
    using none v by simp
qed

text \<open>
  C10. On a live ring each retrieval returns "no completion" only for the outcomes it
  recognises: \<open>-EAGAIN\<close> and \<open>-EINTR\<close>, and \<open>-ETIME\<close> too for the wait with a
  timeout. For every other negative return code \<open>ret\<close> it raises \<open>unix_error\<close>
  with the negated code \<open>-ret\<close> and the name of the library call, and does not
  return \<open>None\<close>.
\<close>

theorem retrieval_errors_raise:
  "(ocaml_uring_wait_cqe ret posted (Some ring) = Inr (None, ring') \<longrightarrow>
      ret = - EAGAIN \<or> ret = - EINTR) \<and>
   (ocaml_uring_peek_cqe ret posted (Some ring) = Inr (None, ring') \<longrightarrow>
      ret = - EAGAIN \<or> ret = - EINTR) \<and>
   (ocaml_uring_wait_cqe_timeout wait posted v_timeout (Some ring) = Inr (None, ring') \<longrightarrow>
      wait (timespec_of v_timeout) = - EAGAIN \<or> wait (timespec_of v_timeout) = - EINTR \<or>
      wait (timespec_of v_timeout) = - ETIME) \<and>
   (ret <s 0 \<and> ret \<noteq> - EAGAIN \<and> ret \<noteq> - EINTR \<longrightarrow>
      ocaml_uring_wait_cqe ret posted (Some ring) =
        Inl (Unix_error (- ret) ''io_uring_wait_cqe'') \<and>
      ocaml_uring_peek_cqe ret posted (Some ring) =
        Inl (Unix_error (- ret) ''io_uring_peek_cqe'')) \<and>
   (wait (timespec_of v_timeout) <s 0 \<and> wait (timespec_of v_timeout) \<noteq> - EAGAIN \<and>
    wait (timespec_of v_timeout) \<noteq> - EINTR \<and> wait (timespec_of v_timeout) \<noteq> - ETIME \<longrightarrow>
      ocaml_uring_wait_cqe_timeout wait posted v_timeout (Some ring) =
        Inl (Unix_error (- wait (timespec_of v_timeout)) ''io_uring_wait_cqe_timeout''))"
  by (auto simp: ocaml_uring_wait_cqe_def ocaml_uring_peek_cqe_def
      ocaml_uring_wait_cqe_timeout_def Let_def split: if_splits)

theorem retrieval_errors_raise_witness:
  "ocaml_uring_wait_cqe (- 9) [] (Some empty_ring) = Inl (Unix_error 9 ''io_uring_wait_cqe'') \<and>
   ocaml_uring_peek_cqe (- 9) [] (Some empty_ring) = Inl (Unix_error 9 ''io_uring_peek_cqe'') \<and>
   ocaml_uring_wait_cqe_timeout (\<lambda>t. - 9) [] 1 (Some empty_ring) =
     Inl (Unix_error 9 ''io_uring_wait_cqe_timeout'')"
proof -
  have "(- 9 :: c_int) <s 0" "(- 9 :: c_int) \<noteq> - EAGAIN" "(- 9 :: c_int) \<noteq> - EINTR"
    "(- 9 :: c_int) \<noteq> - ETIME"
    by (simp_all add: word_sless_alt EAGAIN_def EINTR_def ETIME_def)
  then show ?thesis
    using retrieval_errors_raise [of "- 9" "[]" empty_ring empty_ring "\<lambda>t. - 9" 1]
    by simp
qed

text \<open>
  C3. The stubs read the tag of the oldest entry, mark the entry consumed, and only
  then read its result from the slot. The completion ring here is full, its oldest
  entry has tag 1 and result 10, and the kernel delivers a completion with result 7
  as soon as the slot is free: each of the three retrievals returns tag 1 with
  result 7, the result of another completion, and not the result 10 that stood in
  the entry before it was marked consumed.
\<close>

theorem cqe_result_read_after_seen:
  "unseen cq_full_ring = [\<lparr>user_data = 1, res = 10\<rparr>, \<lparr>user_data = 2, res = 20\<rparr>] \<and>
   map_sum id fst (ocaml_uring_peek_cqe 0 [\<lparr>user_data = 3, res = 7\<rparr>] (Some cq_full_ring)) =
     Inr (Some (1, 7)) \<and>
   map_sum id fst (ocaml_uring_wait_cqe 0 [\<lparr>user_data = 3, res = 7\<rparr>] (Some cq_full_ring)) =
     Inr (Some (1, 7)) \<and>
   map_sum id fst
     (ocaml_uring_wait_cqe_timeout (\<lambda>t. 0) [\<lparr>user_data = 3, res = 7\<rparr>] 1 (Some cq_full_ring)) =
     Inr (Some (1, 7))"
  by code_simp

subsection \<open>The operation encoders\<close>

lemma fill_slot_or_full_get_sqe:
  "(case io_uring_get_sqe ring of
      None \<Rightarrow> Inr (False, ring)
    | Some sqe \<Rightarrow> Inr (True, sqe \<lparr>prep = p, sqe_user_data = tag\<rparr>)) =
   (Inr (fill_slot_or_full ring p tag) :: error + bool \<times> io_uring)"
  by (simp add: io_uring_get_sqe_def fill_slot_or_full_def)

lemma submit_nop_live:
  "ocaml_uring_submit_nop (Some ring) v_id = Inr (fill_slot_or_full ring Prep_nop (Long_val v_id))"
  by (simp add: ocaml_uring_submit_nop_def fill_slot_or_full_get_sqe)

lemma submit_openat2_live:
  "ocaml_uring_submit_openat2 (Some ring) v_id v_fd v_open_how =
     Inr (fill_slot_or_full ring (Prep_openat2 (Int_val v_fd) v_open_how) (Long_val v_id))"
  by (simp add: ocaml_uring_submit_openat2_def fill_slot_or_full_get_sqe)

lemma submit_close_live:
  "ocaml_uring_submit_close (Some ring) v_fd v_id =
     Inr (fill_slot_or_full ring (Prep_close (Int_val v_fd)) (Long_val v_id))"
  by (simp add: ocaml_uring_submit_close_def fill_slot_or_full_get_sqe)

lemma submit_poll_add_live:
  "ocaml_uring_submit_poll_add (Some ring) v_fd v_id v_poll_mask =
     Inr (fill_slot_or_full ring (Prep_poll_add (Int_val v_fd) (Int_val v_poll_mask))
            (Long_val v_id))"
  by (simp add: ocaml_uring_submit_poll_add_def fill_slot_or_full_get_sqe)

lemma submit_readv_live:
  "ocaml_uring_submit_readv (Some ring) v_fd v_id v_iov v_off =
     Inr (fill_slot_or_full ring
            (Prep_readv (Int_val v_fd) (and (iov_field0 v_iov) (not 1))
               (ucast (iov_field1_wosize v_iov)) (Int63_val v_off))
            (Long_val v_id))"
  by (simp add: ocaml_uring_submit_readv_def fill_slot_or_full_get_sqe)

lemma submit_writev_live:
  "ocaml_uring_submit_writev (Some ring) v_fd v_id v_iov v_off =
     Inr (fill_slot_or_full ring
            (Prep_writev (Int_val v_fd) (and (iov_field0 v_iov) (not 1))
               (ucast (iov_field1_wosize v_iov)) (Int63_val v_off))
            (Long_val v_id))"
  by (simp add: ocaml_uring_submit_writev_def fill_slot_or_full_get_sqe)

lemma submit_readv_fixed_live:
  "ocaml_uring_submit_readv_fixed_native (Some ring) v_fd v_id v_ba v_off v_len v_fileoff =
     Inr (fill_slot_or_full ring
            (Prep_read_fixed (Int_val v_fd) (ba_data v_ba + Long_val v_off) (Int_val v_len)
               (Int63_val v_fileoff) 0)
            (Long_val v_id))"
  by (simp add: ocaml_uring_submit_readv_fixed_native_def fill_slot_or_full_get_sqe)

lemma submit_writev_fixed_live:
  "ocaml_uring_submit_writev_fixed_native (Some ring) v_fd v_id v_ba v_off v_len v_fileoff =
     Inr (fill_slot_or_full ring
            (Prep_write_fixed (Int_val v_fd) (ba_data v_ba + Long_val v_off) (Int_val v_len)
               (Int63_val v_fileoff) 0)
            (Long_val v_id))"
  by (simp add: ocaml_uring_submit_writev_fixed_native_def fill_slot_or_full_get_sqe)

lemma submit_splice_live:
  "ocaml_uring_submit_splice (Some ring) v_id v_fd_in v_fd_out v_nbytes =
     Inr (fill_slot_or_full ring
            (Prep_splice (Int_val v_fd_in) (- 1) (Int_val v_fd_out) (- 1) (Int_val v_nbytes) 0)
            (Long_val v_id))"
  by (simp add: ocaml_uring_submit_splice_def fill_slot_or_full_get_sqe)

lemma submit_connect_live:
  "ocaml_uring_submit_connect (Some ring) v_id v_fd v_sockaddr =
     Inr (fill_slot_or_full ring
            (Prep_connect (Int_val v_fd) (sock_addr_addr v_sockaddr) (sock_addr_len v_sockaddr))
            (Long_val v_id))"
  by (simp add: ocaml_uring_submit_connect_def fill_slot_or_full_get_sqe)

lemma submit_accept_live:
  "ocaml_uring_submit_accept (Some ring) v_id v_fd v_sockaddr =
     Inr (case fill_slot_or_full ring
                 (Prep_accept (Int_val v_fd)
                    (v_sockaddr\<lparr>sock_addr_len := sizeof_sock_addr_union\<rparr>) SOCK_CLOEXEC)
                 (Long_val v_id) of
            (filled, ring') \<Rightarrow>
              (filled, ring', v_sockaddr\<lparr>sock_addr_len := sizeof_sock_addr_union\<rparr>))"
  by (simp add: ocaml_uring_submit_accept_def io_uring_get_sqe_def fill_slot_or_full_def
      Let_def)

lemma submit_cancel_live:
  "ocaml_uring_submit_cancel (Some ring) v_id v_target =
     Inr (fill_slot_or_full ring (Prep_cancel (Long_val v_target) 0) (Long_val v_id))"
  by (simp add: ocaml_uring_submit_cancel_def fill_slot_or_full_get_sqe)

text \<open>
  C4, as amended. On a live ring every encoder does what \<open>fill_slot_or_full\<close>
  says for its operation and the correlation id: it returns true, with one entry
  holding the operation, its arguments and the id appended to the submission ring,
  if a slot is free, and false exactly when the submission ring is full, with the
  ring as it was. No argument is modified, except by the accept encoder, which in
  either case has set the stored length of the socket address handle to the size of
  the address buffer.
\<close>

theorem encoders_fill_slot_or_report_full:
  "ocaml_uring_submit_nop (Some ring) v_id =
     Inr (fill_slot_or_full ring Prep_nop (Long_val v_id)) \<and>
   ocaml_uring_submit_openat2 (Some ring) v_id v_fd v_open_how =
     Inr (fill_slot_or_full ring (Prep_openat2 (Int_val v_fd) v_open_how) (Long_val v_id)) \<and>
   ocaml_uring_submit_close (Some ring) v_fd v_id =
     Inr (fill_slot_or_full ring (Prep_close (Int_val v_fd)) (Long_val v_id)) \<and>
   ocaml_uring_submit_poll_add (Some ring) v_fd v_id v_poll_mask =
     Inr (fill_slot_or_full ring (Prep_poll_add (Int_val v_fd) (Int_val v_poll_mask))
            (Long_val v_id)) \<and>
   ocaml_uring_submit_readv (Some ring) v_fd v_id v_iov v_fileoff =
     Inr (fill_slot_or_full ring
            (Prep_readv (Int_val v_fd) (and (iov_field0 v_iov) (not 1))
               (ucast (iov_field1_wosize v_iov)) (Int63_val v_fileoff))
            (Long_val v_id)) \<and>
   ocaml_uring_submit_writev (Some ring) v_fd v_id v_iov v_fileoff =
     Inr (fill_slot_or_full ring
            (Prep_writev (Int_val v_fd) (and (iov_field0 v_iov) (not 1))
               (ucast (iov_field1_wosize v_iov)) (Int63_val v_fileoff))
            (Long_val v_id)) \<and>
   ocaml_uring_submit_readv_fixed_native (Some ring) v_fd v_id v_ba v_off v_len v_fileoff =
     Inr (fill_slot_or_full ring
            (Prep_read_fixed (Int_val v_fd) (ba_data v_ba + Long_val v_off) (Int_val v_len)
               (Int63_val v_fileoff) 0)
            (Long_val v_id)) \<and>
   ocaml_uring_submit_writev_fixed_native (Some ring) v_fd v_id v_ba v_off v_len v_fileoff =
     Inr (fill_slot_or_full ring
            (Prep_write_fixed (Int_val v_fd) (ba_data v_ba + Long_val v_off) (Int_val v_len)
               (Int63_val v_fileoff) 0)
            (Long_val v_id)) \<and>
   ocaml_uring_submit_splice (Some ring) v_id v_fd v_fd_out v_len =
     Inr (fill_slot_or_full ring
            (Prep_splice (Int_val v_fd) (- 1) (Int_val v_fd_out) (- 1) (Int_val v_len) 0)
            (Long_val v_id)) \<and>
   ocaml_uring_submit_connect (Some ring) v_id v_fd v_sockaddr =
     Inr (fill_slot_or_full ring
            (Prep_connect (Int_val v_fd) (sock_addr_addr v_sockaddr) (sock_addr_len v_sockaddr))
            (Long_val v_id)) \<and>
   ocaml_uring_submit_accept (Some ring) v_id v_fd v_sockaddr =
     Inr (case fill_slot_or_full ring
                 (Prep_accept (Int_val v_fd)
                    (v_sockaddr\<lparr>sock_addr_len := sizeof_sock_addr_union\<rparr>) SOCK_CLOEXEC)
                 (Long_val v_id) of
            (filled, ring') \<Rightarrow>
              (filled, ring', v_sockaddr\<lparr>sock_addr_len := sizeof_sock_addr_union\<rparr>)) \<and>
   ocaml_uring_submit_cancel (Some ring) v_id v_target =
     Inr (fill_slot_or_full ring (Prep_cancel (Long_val v_target) 0) (Long_val v_id)) \<and>
   (fst (fill_slot_or_full ring p tag) \<longleftrightarrow> length (sq ring) < sq_entries ring) \<and>
   (sq_entries ring \<le> length (sq ring) \<longrightarrow> fill_slot_or_full ring p tag = (False, ring)) \<and>
   (length (sq ring) < sq_entries ring \<longrightarrow>
      fill_slot_or_full ring p tag =
        (True, ring\<lparr>sq := sq ring @ [\<lparr>prep = p, sqe_user_data = tag\<rparr>]\<rparr>))"
proof -
  have "fst (fill_slot_or_full ring p tag) \<longleftrightarrow> length (sq ring) < sq_entries ring"
    by (simp add: fill_slot_or_full_def)
  moreover have
    "sq_entries ring \<le> length (sq ring) \<longrightarrow> fill_slot_or_full ring p tag = (False, ring)"
    by (simp add: fill_slot_or_full_def)
  moreover have "length (sq ring) < sq_entries ring \<longrightarrow>
      fill_slot_or_full ring p tag =
        (True, ring\<lparr>sq := sq ring @ [\<lparr>prep = p, sqe_user_data = tag\<rparr>]\<rparr>)"
    by (simp add: fill_slot_or_full_def)
  ultimately show ?thesis
    by (simp only: submit_nop_live submit_openat2_live submit_close_live submit_poll_add_live
        submit_readv_live submit_writev_live submit_readv_fixed_live submit_writev_fixed_live
        submit_splice_live submit_connect_live submit_accept_live submit_cancel_live
        simp_thms)
qed

theorem encoders_fill_slot_or_report_full_witness:
  "ocaml_uring_submit_nop (Some sq_full_ring) 5 = Inr (False, sq_full_ring) \<and>
   ocaml_uring_submit_close (Some empty_ring) 3 5 =
     Inr (True, empty_ring\<lparr>sq := [\<lparr>prep = Prep_close 3, sqe_user_data = 5\<rparr>]\<rparr>)"
proof -
  have full: "sq_entries sq_full_ring \<le> length (sq sq_full_ring)"
    by (simp add: sq_full_ring_def empty_ring_def)
  have free: "length (sq empty_ring) < sq_entries empty_ring" "sq empty_ring = []"
    by (simp_all add: empty_ring_def)
  have v: "Int_val 3 = 3" "Long_val 5 = 5"
    by (simp_all add: Int_val_def Long_val_def)
  show ?thesis
    using encoders_fill_slot_or_report_full
        [of sq_full_ring 5 _ _ _ _ _ _ _ _ _ _ _ Prep_nop "Long_val 5"]
      encoders_fill_slot_or_report_full
        [of empty_ring 5 3 _ _ _ _ _ _ _ _ _ _ "Prep_close (Int_val 3)" "Long_val 5"]
      full free v
    by simp
qed

text \<open>
  The claim as it stands fails: the accept encoder returns false on a full
  submission ring and has changed the handle it was given.
\<close>

theorem encoder_false_unmodified_counterexample:
  "ocaml_uring_submit_accept (Some sq_full_ring) 7 3 inet_handle =
     Inr (False, sq_full_ring, inet_handle\<lparr>sock_addr_len := 112\<rparr>) \<and>
   inet_handle\<lparr>sock_addr_len := 112\<rparr> \<noteq> inet_handle"
  by (simp add: ocaml_uring_submit_accept_def io_uring_get_sqe_def sq_full_ring_def
      empty_ring_def inet_handle_def sizeof_sock_addr_union_def)

text \<open>
  C9. The accept encoder sets the stored length of the socket address handle to the
  size of the address buffer before it asks for a submission slot: the handle it
  leaves has that length whatever the state of the submission ring, also when the
  ring is full and the encoder returns false.
\<close>

theorem accept_sizes_handle_before_slot_check:
  "(\<exists>filled ring'. ocaml_uring_submit_accept (Some ring) v_id v_fd v_sockaddr =
      Inr (filled, ring', v_sockaddr\<lparr>sock_addr_len := sizeof_sock_addr_union\<rparr>)) \<and>
   (sq_entries ring \<le> length (sq ring) \<longrightarrow>
      ocaml_uring_submit_accept (Some ring) v_id v_fd v_sockaddr =
        Inr (False, ring, v_sockaddr\<lparr>sock_addr_len := sizeof_sock_addr_union\<rparr>))"
  by (auto simp: ocaml_uring_submit_accept_def io_uring_get_sqe_def Let_def)

theorem accept_sizes_handle_before_slot_check_witness:
  "ocaml_uring_submit_accept (Some sq_full_ring) 9 5 inet_handle =
     Inr (False, sq_full_ring, inet_handle\<lparr>sock_addr_len := 112\<rparr>) \<and>
   sock_addr_len inet_handle = 16"
  using accept_sizes_handle_before_slot_check [of sq_full_ring 9 5 inet_handle]
  by (simp add: sq_full_ring_def empty_ring_def sizeof_sock_addr_union_def inet_handle_def)

text \<open>
  C8, as amended. Given a free slot, the splice encoder fills the entry with the
  offset -1, "the current position", for the source and for the destination, and
  with no flags; the byte count of the entry is the low 32 bits of the count given,
  which is the count given whenever that is below \<open>2 ^ 32\<close>.
\<close>

theorem splice_at_current_position:
  "length (sq ring) < sq_entries ring \<Longrightarrow>
     ocaml_uring_submit_splice (Some ring) v_id v_fd_in v_fd_out v_nbytes =
       Inr (True, ring\<lparr>sq := sq ring @
              [\<lparr>prep = Prep_splice (Int_val v_fd_in) (- 1) (Int_val v_fd_out) (- 1)
                         (Int_val v_nbytes) 0,
                sqe_user_data = Long_val v_id\<rparr>]\<rparr>) \<and>
     unat (Int_val v_nbytes) = unat v_nbytes mod 2 ^ 32 \<and>
     (unat v_nbytes < 2 ^ 32 \<longrightarrow> unat (Int_val v_nbytes) = unat v_nbytes)"
  by (simp add: ocaml_uring_submit_splice_def io_uring_get_sqe_def Int_val_unat)

theorem splice_at_current_position_witness:
  "ocaml_uring_submit_splice (Some empty_ring) 1 3 4 4096 =
     Inr (True, empty_ring\<lparr>sq :=
            [\<lparr>prep = Prep_splice 3 (- 1) 4 (- 1) 4096 0, sqe_user_data = 1\<rparr>]\<rparr>)"
proof -
  have free: "length (sq empty_ring) < sq_entries empty_ring" "sq empty_ring = []"
    by (simp_all add: empty_ring_def)
  have v: "Int_val 3 = 3" "Int_val 4 = 4" "Int_val 4096 = 4096" "Long_val 1 = 1"
    by (simp_all add: Int_val_def Long_val_def)
  show ?thesis
    using splice_at_current_position [of empty_ring 1 3 4 4096] free v
    by simp
qed

text \<open>
  The claim as it stands fails: asked to splice \<open>2 ^ 32\<close> bytes, the encoder fills
  the entry with the byte count 0.
\<close>

theorem splice_byte_count_counterexample:
  "ocaml_uring_submit_splice (Some empty_ring) 1 3 4 4294967296 =
     Inr (True, empty_ring\<lparr>sq :=
            [\<lparr>prep = Prep_splice 3 (- 1) 4 (- 1) 0 0, sqe_user_data = 1\<rparr>]\<rparr>) \<and>
   unat (0 :: c_int) \<noteq> unat (4294967296 :: ocaml_int)"
  by (simp add: ocaml_uring_submit_splice_def io_uring_get_sqe_def empty_ring_def
      Int_val_def Long_val_def)

subsection \<open>Socket address handles\<close>

lemma port_bytes:
  "Val_int (ntohs (ucast (drop_bit 8 (ucast (Int_val port) :: 16 word)))
                  (ucast (ucast (Int_val port) :: 16 word))) = take_bit 16 port"
  unfolding Val_int_def Val_long_def ntohs_def Int_val_ucast
  by (rule bit_word_eqI) (auto simp: bit_simps)

lemma port_in_range: "take_bit 16 port = port \<longleftrightarrow> unat port < 65536" for port :: ocaml_int
proof -
  have "take_bit 16 port = port \<longleftrightarrow> take_bit 16 (unat port) = unat port"
    by (simp add: word_unat_eq_iff unsigned_take_bit_eq)
  also have "\<dots> \<longleftrightarrow> unat port < 65536"
    by (simp add: take_bit_nat_eq_self_iff)
  finally show ?thesis .
qed

lemma make_then_extract_accepted:
  assumes "get_sockaddr a (sock_addr_addr data) = Inr (adr, adr_len)"
  shows "ocaml_uring_make_sockaddr data a =
           Inr (data\<lparr>sock_addr_addr := adr, sock_addr_len := adr_len\<rparr>)"
    and "make_then_extract data a = alloc_sockaddr adr adr_len (- 1)"
  using assms
  by (simp_all add: make_then_extract_def ocaml_uring_make_sockaddr_def
      ocaml_uring_extract_sockaddr_def)

lemma roundtrip_inet4:
  assumes "length ip = 4"
  shows "make_then_extract data (ADDR_INET ip port) = Inr (ADDR_INET ip (take_bit 16 port))"
  using assms
  by (simp add: make_then_extract_def ocaml_uring_make_sockaddr_def get_sockaddr_def
      ocaml_uring_extract_sockaddr_def alloc_sockaddr_def overwrite_def htons_def port_bytes)

lemma roundtrip_inet6:
  assumes "length ip = 16"
  shows "make_then_extract data (ADDR_INET ip port) = Inr (ADDR_INET ip (take_bit 16 port))"
  using assms
  by (simp add: make_then_extract_def ocaml_uring_make_sockaddr_def get_sockaddr_def
      ocaml_uring_extract_sockaddr_def alloc_sockaddr_def overwrite_def htons_def port_bytes)

lemma strnlen_path:
  assumes "0 \<notin> set p"
  shows "strnlen (p @ 0 # rest) (length p) = length p"
proof -
  have tw: "takeWhile (\<lambda>b. b \<noteq> 0) p = p"
    by (rule takeWhile_eq_all_conv [THEN iffD2]) (use assms in auto)
  show ?thesis
    by (simp add: strnlen_def tw)
qed

lemma unix_len:
  assumes "length p < 108"
  shows "unat (of_nat (2 + length p) :: c_int) = 2 + length p"
proof -
  have "2 + length p < 2 ^ LENGTH(32)"
    using assms by simp
  then show ?thesis
    by (simp only: unat_of_nat mod_less)
qed

lemma alloc_sockaddr_unix:
  assumes "length p < 108" and "p = [] \<or> hd p = 0 \<or> 0 \<notin> set p"
  shows "alloc_sockaddr (overwrite ([1, 0] @ p @ [0]) buf) (of_nat (2 + length p)) (- 1) =
           Inr (ADDR_UNIX p)"
proof -
  define adr where "adr = overwrite ([1, 0] @ p @ [0]) buf"
  define len :: c_int where "len = of_nat (2 + length p)"
  define rest where "rest = drop (Suc (Suc (Suc (length p)))) buf"
  have u: "unat len = 2 + length p"
    unfolding len_def using assms(1) by (rule unix_len)
  have ge: "\<not> len < 2"
    using u by (simp add: word_less_nat_alt)
  have gt: "2 < len \<longleftrightarrow> p \<noteq> []"
    using u by (simp add: word_less_nat_alt)
  have fam: "take 2 adr = [1, 0]"
    by (simp add: adr_def overwrite_def)
  have sp: "drop 2 adr = p @ 0 # rest"
    by (simp add: adr_def overwrite_def rest_def)
  have "alloc_sockaddr adr len (- 1) = Inr (ADDR_UNIX p)"
  proof (cases "p = []")
    case True
    then show ?thesis
      using ge gt fam by (simp add: alloc_sockaddr_def Let_def)
  next
    case False
    then have hd: "hd (p @ 0 # rest) = hd p"
      by simp
    show ?thesis
    proof (cases "hd p = 0")
      case True
      then show ?thesis
        using False ge gt fam hd u by (simp add: alloc_sockaddr_def Let_def sp)
    next
      case nz: False
      then have "0 \<notin> set p"
        using assms(2) False by blast
      then have "strnlen (p @ 0 # rest) (length p) = length p"
        by (rule strnlen_path)
      then show ?thesis
        using False nz ge gt fam hd u by (simp add: alloc_sockaddr_def Let_def sp)
    qed
  qed
  then show ?thesis
    by (simp only: adr_def len_def)
qed

lemma roundtrip_unix:
  assumes "length p < 108" and "p = [] \<or> hd p = 0 \<or> 0 \<notin> set p"
  shows "make_then_extract data (ADDR_UNIX p) = Inr (ADDR_UNIX p)"
proof -
  have "get_sockaddr (ADDR_UNIX p) (sock_addr_addr data) =
          Inr (overwrite ([1, 0] @ p @ [0]) (sock_addr_addr data), of_nat (2 + length p))"
    using assms by (auto simp: get_sockaddr_def)
  then have "make_then_extract data (ADDR_UNIX p) =
      alloc_sockaddr (overwrite ([1, 0] @ p @ [0]) (sock_addr_addr data))
        (of_nat (2 + length p)) (- 1)"
    by (rule make_then_extract_accepted(2))
  then show ?thesis
    by (simp only: alloc_sockaddr_unix [OF assms])
qed

lemma make_refuses_unix:
  assumes "\<not> (length p < 108 \<and> (p = [] \<or> hd p = 0 \<or> 0 \<notin> set p))"
  shows "raises (ocaml_uring_make_sockaddr data (ADDR_UNIX p))"
  using assms by (auto simp: ocaml_uring_make_sockaddr_def get_sockaddr_def)

text \<open>
  C7, as amended. A handle made from an address the translation accepts holds the
  native address, family and bytes, and its length exactly as the translation
  produced them, and extraction translates exactly these back. The address
  extracted is the original one for a Unix domain path (shorter than 108 bytes and
  without a zero byte, unless it is empty or starts with one), and for an IPv4 or
  IPv6 address exactly when its port is in 0..65535: the native port has 16 bits,
  and a port comes back reduced modulo \<open>2 ^ 16\<close>. Any other Unix domain path is
  refused when the handle is made.
\<close>

theorem sockaddr_roundtrip:
  "(get_sockaddr a (sock_addr_addr data) = Inr (adr, adr_len) \<longrightarrow>
      ocaml_uring_make_sockaddr data a =
        Inr (data\<lparr>sock_addr_addr := adr, sock_addr_len := adr_len\<rparr>) \<and>
      make_then_extract data a = alloc_sockaddr adr adr_len (- 1)) \<and>
   (length ip = 4 \<or> length ip = 16 \<longrightarrow>
      make_then_extract data (ADDR_INET ip port) = Inr (ADDR_INET ip (take_bit 16 port)) \<and>
      (make_then_extract data (ADDR_INET ip port) = Inr (ADDR_INET ip port) \<longleftrightarrow>
         unat port < 65536)) \<and>
   (length p < 108 \<and> (p = [] \<or> hd p = 0 \<or> 0 \<notin> set p) \<longrightarrow>
      make_then_extract data (ADDR_UNIX p) = Inr (ADDR_UNIX p)) \<and>
   (\<not> (length p < 108 \<and> (p = [] \<or> hd p = 0 \<or> 0 \<notin> set p)) \<longrightarrow>
      raises (ocaml_uring_make_sockaddr data (ADDR_UNIX p)))"
proof (intro conjI impI)
  assume "length ip = 4 \<or> length ip = 16"
  then show r: "make_then_extract data (ADDR_INET ip port) =
      Inr (ADDR_INET ip (take_bit 16 port))"
    using roundtrip_inet4 roundtrip_inet6 by blast
  show "make_then_extract data (ADDR_INET ip port) = Inr (ADDR_INET ip port) \<longleftrightarrow>
         unat port < 65536"
    by (simp add: r port_in_range)
qed (simp_all add: make_then_extract_accepted roundtrip_unix make_refuses_unix)

theorem sockaddr_roundtrip_witness:
  "ocaml_uring_make_sockaddr fresh_block (ADDR_INET [127, 0, 0, 1] 80) =
     Inr (fresh_block\<lparr>sock_addr_addr :=
                          [2, 0, 0, 80, 127, 0, 0, 1] @ replicate 8 0 @ replicate 96 255,
                        sock_addr_len := 16\<rparr>) \<and>
   make_then_extract fresh_block (ADDR_INET [127, 0, 0, 1] 80) =
     Inr (ADDR_INET [127, 0, 0, 1] 80) \<and>
   make_then_extract fresh_block (ADDR_UNIX [47, 116, 109, 112]) =
     Inr (ADDR_UNIX [47, 116, 109, 112]) \<and>
   raises (ocaml_uring_make_sockaddr fresh_block (ADDR_UNIX (replicate 108 97)))"
proof -
  have g: "get_sockaddr (ADDR_INET [127, 0, 0, 1] 80) (sock_addr_addr fresh_block) =
             Inr ([2, 0, 0, 80, 127, 0, 0, 1] @ replicate 8 0 @ replicate 96 255, 16)"
    by code_simp
  have port: "unat (80 :: ocaml_int) < 65536" "take_bit 16 (80 :: ocaml_int) = 80"
    by simp_all
  have p: "hd [47, 116, 109, 112 :: 8 word] \<noteq> 0" "0 \<notin> set [47, 116, 109, 112 :: 8 word]"
    by simp_all
  show ?thesis
    using sockaddr_roundtrip
        [of "ADDR_INET [127, 0, 0, 1] 80" fresh_block
          "[2, 0, 0, 80, 127, 0, 0, 1] @ replicate 8 0 @ replicate 96 255" 16
          "[127, 0, 0, 1]" 80 "[47, 116, 109, 112]"]
      sockaddr_roundtrip [of _ fresh_block _ _ _ _ "replicate 108 97"]
      g port p
    by simp
qed

text \<open>
  The claim as it stands fails: the IPv4 address 127.0.0.1 with the port 65616,
  made into a handle and extracted, comes back with the port 80.
\<close>

theorem sockaddr_roundtrip_counterexample:
  "make_then_extract fresh_block (ADDR_INET [127, 0, 0, 1] 65616) =
     Inr (ADDR_INET [127, 0, 0, 1] 80) \<and>
   ADDR_INET [127, 0, 0, 1] 80 \<noteq> ADDR_INET [127, 0, 0, 1] 65616"
  by code_simp

end
